theory Spec2Isabelle
  imports Main
begin

section \<open>PIN entry screen and root stack of the wallet: a shallow embedding\<close>

text \<open>
  The development follows \<^verbatim>\<open>packages/core/src/screens/PINEnter.tsx\<close> (the component
  \<^verbatim>\<open>PINEnter\<close>) and the component \<^verbatim>\<open>RootStack\<close>. Every callback of the
  component becomes a function that returns, in program order, the list of effects the callback
  performs: the actions it dispatches to the store, the setters of local component state it
  calls, and the events it emits. What the callback reads (the store snapshot captured by the
  closure, the configuration, the result of an awaited collaborator) is a parameter.
\<close>

subsection \<open>Numbers\<close>

text \<open>
  Attempt counters, durations and timestamps are JavaScript numbers that hold integers; they are
  modelled as \<^typ>\<open>int\<close>. The one way the code can leave the integers is the remainder
  operator \<^verbatim>\<open>%\<close> with divisor 0, whose value is NaN. The remainder of JavaScript takes the
  sign of the dividend.
\<close>

datatype jsnum = NaN | Num int

definition js_rem :: "int \<Rightarrow> int \<Rightarrow> jsnum" where
  "js_rem x y = (if y = 0 then NaN else Num (sgn x * (\<bar>x\<bar> mod \<bar>y\<bar>)))"

text \<open>\<^verbatim>\<open>!v\<close> for a number: true at 0 and at NaN.\<close>

definition js_not :: "jsnum \<Rightarrow> bool" where
  "js_not v = (case v of NaN \<Rightarrow> True | Num k \<Rightarrow> k = 0)"

text \<open>\<^verbatim>\<open>v > k\<close> and \<^verbatim>\<open>v === k\<close>: both false at NaN.\<close>

definition js_gt :: "jsnum \<Rightarrow> int \<Rightarrow> bool" where
  "js_gt v k = (case v of NaN \<Rightarrow> False | Num n \<Rightarrow> k < n)"

definition js_eq :: "jsnum \<Rightarrow> int \<Rightarrow> bool" where
  "js_eq v k = (case v of NaN \<Rightarrow> False | Num n \<Rightarrow> n = k)"

text \<open>\<^verbatim>\<open>!penalty\<close> for \<^verbatim>\<open>number | undefined\<close>: true at undefined and at 0.\<close>

definition falsy :: "int option \<Rightarrow> bool" where
  "falsy p = (case p of None \<Rightarrow> True | Some d \<Rightarrow> d = 0)"

subsection \<open>Configuration and store\<close>

record ThresholdRules =
  threshold :: int
  increment :: int
  thresholdPenaltyDuration :: int

record AttemptLockoutConfig =
  baseRules :: "int \<rightharpoonup> int"
  thresholdRules :: ThresholdRules

record LoginAttemptState =
  loginAttempts :: int
  lockoutDate :: "int option"
  servedPenalty :: "bool option"

text \<open>
  The part of the store the screen reads: \<^verbatim>\<open>store.loginAttempt\<close>,
  \<^verbatim>\<open>store.lockout.displayNotification\<close> and \<^verbatim>\<open>store.onboarding.postAuthScreens\<close>.
\<close>

record Store =
  loginAttempt :: LoginAttemptState
  displayNotification :: bool
  postAuthScreens :: "string list"

text \<open>
  The payload of \<^verbatim>\<open>ATTEMPT_UPDATED\<close> is an object literal. \<^verbatim>\<open>loginAttempts\<close> is
  always written; for the two optional keys the model keeps apart a key that the literal does not
  mention (\<open>None\<close>) and a key that it writes, possibly as \<^verbatim>\<open>undefined\<close>
  (\<open>Some None\<close>).
\<close>

record AttemptPayload =
  pl_loginAttempts :: int
  pl_lockoutDate :: "int option option"
  pl_servedPenalty :: "bool option option"

datatype action =
    ATTEMPT_UPDATED AttemptPayload
  | LOCKOUT_UPDATED bool

text \<open>
  Modelled from the spec: the reducer of the application store for \<^verbatim>\<open>ATTEMPT_UPDATED\<close> and
  \<^verbatim>\<open>LOCKOUT_UPDATED\<close>, which lives in \<^verbatim>\<open>contexts/reducers/store\<close> and is not among the
  sources. The specification describes dispatch as "state-patch actions" with last-write-wins:
  a key the payload writes replaces the stored field, a key it does not mention leaves the
  stored field as it is.
\<close>

fun reducer :: "Store \<Rightarrow> action \<Rightarrow> Store" where
  "reducer st (ATTEMPT_UPDATED p) =
     st\<lparr>loginAttempt :=
          \<lparr>loginAttempts = pl_loginAttempts p,
           lockoutDate = (case pl_lockoutDate p of None \<Rightarrow> lockoutDate (loginAttempt st) | Some v \<Rightarrow> v),
           servedPenalty = (case pl_servedPenalty p of None \<Rightarrow> servedPenalty (loginAttempt st) | Some v \<Rightarrow> v)\<rparr>\<rparr>"
| "reducer st (LOCKOUT_UPDATED b) = st\<lparr>displayNotification := b\<rparr>"

subsection \<open>Effects\<close>

datatype message =
    IncorrectPINTries jsnum
  | LastTryBeforeTimeout
  | PINTooShort

datatype effect =
    SetContinueEnabled bool
  | SetAlertModalVisible bool
  | SetAlertModalMessage message
  | SetInlineMessageField message
  | Dispatch action
  | SetAuthenticated bool
  | Navigate string
  | EmitError int

fun dispatched :: "effect list \<Rightarrow> action list" where
  "dispatched [] = []"
| "dispatched (Dispatch a # es) = a # dispatched es"
| "dispatched (e # es) = dispatched es"

text \<open>The store after a callback that started from the snapshot \<open>st\<close>.\<close>

definition store_after :: "Store \<Rightarrow> effect list \<Rightarrow> Store" where
  "store_after st es = foldl reducer st (dispatched es)"

text \<open>The warning texts a callback wrote, to either sink, in order.\<close>

fun warnings :: "effect list \<Rightarrow> message list" where
  "warnings [] = []"
| "warnings (SetAlertModalMessage m # es) = m # warnings es"
| "warnings (SetInlineMessageField m # es) = m # warnings es"
| "warnings (e # es) = warnings es"

text \<open>An awaited collaborator either rejects or resolves to a value.\<close>

datatype 'a outcome = Throws | Returns 'a

datatype completion = Resolved | Rejected

record WalletSecret =
  key :: string
  salt :: string

datatype PINEntryUsage = PINCheck | WalletUnlock | ChangeBiometrics

subsection \<open>The callbacks of \<^verbatim>\<open>PINEnter\<close>\<close>

definition gotoPostAuthScreens :: "Store \<Rightarrow> effect list" where
  "gotoPostAuthScreens st =
     (case postAuthScreens st of
        [] \<Rightarrow> []
      | screen # _ \<Rightarrow> if screen \<noteq> [] then [Navigate screen] else [])"

definition unMarkServedPenalty :: "Store \<Rightarrow> effect list" where
  "unMarkServedPenalty st =
     [Dispatch (ATTEMPT_UPDATED
        \<lparr>pl_loginAttempts = loginAttempts (loginAttempt st),
         pl_lockoutDate = Some None,
         pl_servedPenalty = Some None\<rparr>)]"

text \<open>\<open>now\<close> is the value of \<^verbatim>\<open>Date.now()\<close> at the call.\<close>

definition attemptLockout :: "Store \<Rightarrow> int \<Rightarrow> int \<Rightarrow> effect list" where
  "attemptLockout st now penalty =
     [Dispatch (ATTEMPT_UPDATED
        \<lparr>pl_loginAttempts = loginAttempts (loginAttempt st) + 1,
         pl_lockoutDate = Some (Some (now + penalty)),
         pl_servedPenalty = Some (Some False)\<rparr>)]"

definition getLockoutPenalty :: "AttemptLockoutConfig \<Rightarrow> int \<Rightarrow> int option" where
  "getLockoutPenalty cfg attempts =
     (let penalty = baseRules cfg attempts in
      if falsy penalty
         \<and> threshold (thresholdRules cfg) \<le> attempts
         \<and> js_not (js_rem attempts (increment (thresholdRules cfg)))
      then Some (thresholdPenaltyDuration (thresholdRules cfg))
      else penalty)"

text \<open>
  The effect that keeps \<^verbatim>\<open>displayLockoutWarning\<close> up to date ("display warning if we are one
  away from a lockout").
\<close>

definition displayLockoutWarning :: "AttemptLockoutConfig \<Rightarrow> Store \<Rightarrow> bool" where
  "displayLockoutWarning cfg st =
     (\<not> falsy (getLockoutPenalty cfg (loginAttempts (loginAttempt st) + 1)))"

text \<open>
  \<^verbatim>\<open>loadWalletCredentials\<close> has no handler of its own: the effects it performed, and whether
  its promise resolved or was rejected by \<^verbatim>\<open>getWalletSecret\<close>.
\<close>

definition loadWalletCredentials ::
  "PINEntryUsage \<Rightarrow> Store \<Rightarrow> WalletSecret option outcome \<Rightarrow> effect list \<times> completion" where
  "loadWalletCredentials usage st getWalletSecret =
     (if usage = PINCheck \<or> usage = ChangeBiometrics then ([], Resolved)
      else case getWalletSecret of
             Throws \<Rightarrow> ([], Rejected)
           | Returns None \<Rightarrow> ([], Resolved)
           | Returns (Some walletSecret) \<Rightarrow>
               ([Dispatch (LOCKOUT_UPDATED False),
                 Dispatch (ATTEMPT_UPDATED
                   \<lparr>pl_loginAttempts = 0, pl_lockoutDate = None, pl_servedPenalty = None\<rparr>),
                 SetAuthenticated True]
                @ gotoPostAuthScreens st,
                Resolved))"

text \<open>
  \<^verbatim>\<open>(increment - (newAttempt % increment)) % increment\<close>: NaN as soon as the inner remainder is.
\<close>

definition attemptsLeft :: "int \<Rightarrow> int \<Rightarrow> jsnum" where
  "attemptsLeft inc newAttempt =
     (case js_rem newAttempt inc of
        NaN \<Rightarrow> NaN
      | Num r \<Rightarrow> js_rem (inc - r) inc)"

text \<open>Either sink of a warning text, chosen by \<^verbatim>\<open>inlineMessages.enabled\<close>.\<close>

definition showMessage :: "bool \<Rightarrow> message \<Rightarrow> effect" where
  "showMessage inlineEnabled m =
     (if inlineEnabled then SetInlineMessageField m else SetAlertModalMessage m)"

text \<open>
  The block \<^verbatim>\<open>if (!result) { ... return }\<close> of \<^verbatim>\<open>unlockWalletWithPIN\<close>: the modal is
  raised unless a penalty is due, then the branch is chosen by \<^verbatim>\<open>attemptsLeft\<close>, and only the
  last branch looks at the penalty and returns early.
\<close>

definition recordFailedAttempt ::
  "AttemptLockoutConfig \<Rightarrow> bool \<Rightarrow> Store \<Rightarrow> int \<Rightarrow> effect list" where
  "recordFailedAttempt cfg inlineEnabled st now =
     (let newAttempt = loginAttempts (loginAttempt st) + 1;
          left = attemptsLeft (increment (thresholdRules cfg)) newAttempt;
          logAttempt =
            [SetContinueEnabled True,
             Dispatch (ATTEMPT_UPDATED
               \<lparr>pl_loginAttempts = newAttempt, pl_lockoutDate = None, pl_servedPenalty = None\<rparr>)]
      in (if \<not> inlineEnabled \<and> falsy (getLockoutPenalty cfg newAttempt)
          then [SetAlertModalVisible True] else [])
         @ (if js_gt left 1 then showMessage inlineEnabled (IncorrectPINTries left) # logAttempt
            else if js_eq left 1 then showMessage inlineEnabled LastTryBeforeTimeout # logAttempt
            else (case getLockoutPenalty cfg newAttempt of
                    None \<Rightarrow> []
                  | Some penalty \<Rightarrow> attemptLockout st now penalty)))"

text \<open>The tail of \<^verbatim>\<open>unlockWalletWithPIN\<close>, reached when \<^verbatim>\<open>checkWalletPIN\<close> resolved to true.\<close>

definition recordSuccessfulAttempt :: "Store \<Rightarrow> effect list" where
  "recordSuccessfulAttempt st =
     [Dispatch (ATTEMPT_UPDATED
        \<lparr>pl_loginAttempts = 0, pl_lockoutDate = None, pl_servedPenalty = None\<rparr>),
      Dispatch (LOCKOUT_UPDATED False),
      SetAuthenticated True]
     @ gotoPostAuthScreens st"

text \<open>
  \<^verbatim>\<open>unlockWalletWithPIN\<close>: the whole body is inside \<^verbatim>\<open>try\<close>; a rejection of
  \<^verbatim>\<open>checkWalletPIN\<close> is caught and reported as error 1041.
\<close>

definition unlockWalletWithPIN ::
  "AttemptLockoutConfig \<Rightarrow> bool \<Rightarrow> Store \<Rightarrow> int \<Rightarrow> bool outcome \<Rightarrow> effect list" where
  "unlockWalletWithPIN cfg inlineEnabled st now checkWalletPIN =
     SetContinueEnabled False #
     (case checkWalletPIN of
        Throws \<Rightarrow> [EmitError 1041]
      | Returns result \<Rightarrow>
          (if servedPenalty (loginAttempt st) = Some True then unMarkServedPenalty st else [])
          @ (if \<not> result then recordFailedAttempt cfg inlineEnabled st now
             else recordSuccessfulAttempt st))"

text \<open>
  \<^verbatim>\<open>verifyPIN\<close>: a missing secret is thrown as an error inside the \<^verbatim>\<open>try\<close>, so it ends in
  the same handler as a rejection of \<^verbatim>\<open>getWalletSecret\<close> or of \<^verbatim>\<open>hashPIN\<close>.
\<close>

definition verifyPIN ::
  "WalletSecret option outcome \<Rightarrow> (string \<Rightarrow> string \<Rightarrow> string outcome) \<Rightarrow> string \<Rightarrow> effect list" where
  "verifyPIN getWalletSecret hashPIN PIN =
     (case getWalletSecret of
        Throws \<Rightarrow> [EmitError 1042]
      | Returns None \<Rightarrow> [EmitError 1042]
      | Returns (Some walletSecret) \<Rightarrow>
          (case hashPIN PIN (salt walletSecret) of
             Throws \<Rightarrow> [EmitError 1042]
           | Returns k \<Rightarrow>
               if key walletSecret \<noteq> k then [SetAlertModalVisible True]
               else [SetAuthenticated True]))"

text \<open>\<^verbatim>\<open>minPINLength\<close> comes from the constants module and is a parameter here.\<close>

definition onPINInputCompleted ::
  "AttemptLockoutConfig \<Rightarrow> bool \<Rightarrow> nat \<Rightarrow> PINEntryUsage \<Rightarrow> Store \<Rightarrow> int
   \<Rightarrow> (string \<Rightarrow> bool outcome) \<Rightarrow> WalletSecret option outcome
   \<Rightarrow> (string \<Rightarrow> string \<Rightarrow> string outcome) \<Rightarrow> string \<Rightarrow> effect list" where
  "onPINInputCompleted cfg inlineEnabled minPINLength usage st now
                       checkWalletPIN getWalletSecret hashPIN PIN =
     (if inlineEnabled \<and> length PIN < minPINLength then [SetInlineMessageField PINTooShort]
      else SetContinueEnabled False #
           (if usage = PINCheck \<or> usage = ChangeBiometrics
            then verifyPIN getWalletSecret hashPIN PIN else [])
           @ (if usage = WalletUnlock
              then unlockWalletWithPIN cfg inlineEnabled st now (checkWalletPIN PIN) else []))"

subsection \<open>The component \<^verbatim>\<open>RootStack\<close>\<close>

datatype stack = MainStack | OnboardingStack

text \<open>
  \<^verbatim>\<open>useMemo(f, deps)\<close>: the cell keeps the dependencies and the value of the last
  computation; the value is computed again when the dependencies differ from the kept ones, and
  on the first render, when the cell is empty.
\<close>

definition useMemo :: "('d \<times> 'v) option \<Rightarrow> 'd \<Rightarrow> ('d \<Rightarrow> 'v) \<Rightarrow> 'd \<times> 'v" where
  "useMemo cell deps f =
     (case cell of
        None \<Rightarrow> (deps, f deps)
      | Some (d, v) \<Rightarrow> if d = deps then (d, v) else (deps, f deps))"

text \<open>
  The hook state of the component: \<^verbatim>\<open>useState(false)\<close> for \<^verbatim>\<open>onboardingComplete\<close> and
  the cell of the \<^verbatim>\<open>useMemo\<close> call.
\<close>

record RootStackState =
  onboardingComplete :: bool
  memoCell :: "((bool \<times> bool) \<times> bool) option"

definition shouldRenderMainStack :: "bool \<Rightarrow> bool \<Rightarrow> bool" where
  "shouldRenderMainStack oc didAuth = (oc \<and> didAuth)"

text \<open>One render: the new hook state and the stack returned.\<close>

definition RootStack :: "RootStackState \<Rightarrow> bool \<Rightarrow> RootStackState \<times> stack" where
  "RootStack s didAuth =
     (let cell = useMemo (memoCell s) (onboardingComplete s, didAuth)
                   (\<lambda>(oc, da). shouldRenderMainStack oc da)
      in (s\<lparr>memoCell := Some cell\<rparr>, if snd cell then MainStack else OnboardingStack))"

text \<open>
  The gate as a machine: the hook state, the value of \<^verbatim>\<open>store.authentication.didAuthenticate\<close>
  the component sees, and the stack on screen. The listener of \<^verbatim>\<open>DID_COMPLETE_ONBOARDING\<close>
  calls \<^verbatim>\<open>setOnboardingComplete(true)\<close>; a change of the store gives the component a new
  \<^verbatim>\<open>didAuthenticate\<close>. Either is followed by a render.
\<close>

record Gate =
  component :: RootStackState
  didAuthenticate :: bool
  rendered :: stack

datatype gate_event = DID_COMPLETE_ONBOARDING | AuthenticationChanged bool

definition render :: "RootStackState \<Rightarrow> bool \<Rightarrow> Gate" where
  "render s didAuth =
     (let r = RootStack s didAuth
      in \<lparr>component = fst r, didAuthenticate = didAuth, rendered = snd r\<rparr>)"

definition mount :: "bool \<Rightarrow> Gate" where
  "mount didAuth = render \<lparr>onboardingComplete = False, memoCell = None\<rparr> didAuth"

fun gate_step :: "Gate \<Rightarrow> gate_event \<Rightarrow> Gate" where
  "gate_step g DID_COMPLETE_ONBOARDING =
     render ((component g)\<lparr>onboardingComplete := True\<rparr>) (didAuthenticate g)"
| "gate_step g (AuthenticationChanged b) = render (component g) b"

definition run_gate :: "Gate \<Rightarrow> gate_event list \<Rightarrow> Gate" where
  "run_gate g es = foldl gate_step g es"

text \<open>
  The two signals on their own, as the specification has them: the completion event sets
  \<^verbatim>\<open>onboardingComplete\<close>, a change of the store replaces \<^verbatim>\<open>didAuthenticate\<close>.
\<close>

fun apply_event :: "bool \<times> bool \<Rightarrow> gate_event \<Rightarrow> bool \<times> bool" where
  "apply_event (oc, da) DID_COMPLETE_ONBOARDING = (True, da)"
| "apply_event (oc, da) (AuthenticationChanged b) = (oc, b)"

definition latest_signals :: "bool \<Rightarrow> gate_event list \<Rightarrow> bool \<times> bool" where
  "latest_signals didAuth es = foldl apply_event (False, didAuth) es"

definition decideStack :: "bool \<times> bool \<Rightarrow> stack" where
  "decideStack sig = (if fst sig \<and> snd sig then MainStack else OnboardingStack)"

text \<open>
  The invariant of the hook state: a filled cell holds the value of the function at the
  dependencies it keeps. A gate is consistent when its cell is sound and the stack on screen is
  the one decided by the signals the component has now.
\<close>

definition memo_sound :: "RootStackState \<Rightarrow> bool" where
  "memo_sound s =
     (case memoCell s of
        None \<Rightarrow> True
      | Some (d, v) \<Rightarrow> v = shouldRenderMainStack (fst d) (snd d))"

definition gate_consistent :: "Gate \<Rightarrow> bool" where
  "gate_consistent g =
     (memo_sound (component g)
      \<and> rendered g = decideStack (onboardingComplete (component g), didAuthenticate g))"

subsection \<open>The reference definition of the penalty, and the configurations of the scenarios\<close>

text \<open>
  The penalty as the specification words it: the base rule if there is an entry for the exact
  count, else the threshold penalty if the count has reached the threshold and is a multiple of
  the increment, else absent.
\<close>

definition computeLockoutPenalty_spec :: "AttemptLockoutConfig \<Rightarrow> int \<Rightarrow> int option" where
  "computeLockoutPenalty_spec cfg attempts =
     (case baseRules cfg attempts of
        Some d \<Rightarrow> Some d
      | None \<Rightarrow>
          if threshold (thresholdRules cfg) \<le> attempts
             \<and> attempts mod increment (thresholdRules cfg) = 0
          then Some (thresholdPenaltyDuration (thresholdRules cfg))
          else None)"

text \<open>
  The same with an entry of duration 0 treated as the code treats it: it does not stop the
  threshold rule, and it is returned as 0 when the threshold rule does not apply.
\<close>

definition computeLockoutPenalty_amended :: "AttemptLockoutConfig \<Rightarrow> int \<Rightarrow> int option" where
  "computeLockoutPenalty_amended cfg attempts =
     (case baseRules cfg attempts of
        Some d \<Rightarrow>
          if d = 0 \<and> threshold (thresholdRules cfg) \<le> attempts
             \<and> attempts mod increment (thresholdRules cfg) = 0
          then Some (thresholdPenaltyDuration (thresholdRules cfg))
          else Some d
      | None \<Rightarrow>
          if threshold (thresholdRules cfg) \<le> attempts
             \<and> attempts mod increment (thresholdRules cfg) = 0
          then Some (thresholdPenaltyDuration (thresholdRules cfg))
          else None)"

text \<open>
  Scenarios 1 and 2 of the specification: \<^verbatim>\<open>baseRules = {3: 30000}\<close>, threshold 5,
  increment 2, threshold penalty 60000.
\<close>

definition scenario_config :: AttemptLockoutConfig where
  "scenario_config =
     \<lparr>baseRules = [3 \<mapsto> 30000],
      thresholdRules = \<lparr>threshold = 5, increment = 2, thresholdPenaltyDuration = 60000\<rparr>\<rparr>"

text \<open>A configuration with a base rule of duration 0 at a count where the threshold rule applies.\<close>

definition zero_rule_config :: AttemptLockoutConfig where
  "zero_rule_config =
     \<lparr>baseRules = [6 \<mapsto> 0],
      thresholdRules = \<lparr>threshold = 5, increment = 2, thresholdPenaltyDuration = 60000\<rparr>\<rparr>"

text \<open>A store whose login-attempt state is fresh but for the counter.\<close>

definition store_with_attempts :: "int \<Rightarrow> Store" where
  "store_with_attempts n =
     \<lparr>loginAttempt = \<lparr>loginAttempts = n, lockoutDate = None, servedPenalty = None\<rparr>,
      displayNotification = False,
      postAuthScreens = []\<rparr>"

section \<open>The lockout penalty\<close>

text \<open>
  For a divisor other than 0 the truth value of \<^verbatim>\<open>!(a % inc)\<close> is divisibility, whatever
  the signs: the remainder of JavaScript and the \<open>mod\<close> of HOL vanish together.
\<close>

lemma js_not_js_rem: "inc \<noteq> 0 \<Longrightarrow> js_not (js_rem a inc) = (a mod inc = 0)"
  by (auto simp: js_not_def js_rem_def sgn_if mod_eq_0_iff_dvd)

lemma getLockoutPenalty_spec_nonzero:
  "increment (thresholdRules cfg) \<noteq> 0 \<Longrightarrow> baseRules cfg attempts \<noteq> Some 0 \<Longrightarrow>
   getLockoutPenalty cfg attempts = computeLockoutPenalty_spec cfg attempts"
  by (auto simp: getLockoutPenalty_def computeLockoutPenalty_spec_def Let_def falsy_def
        js_not_js_rem split: option.splits)

text \<open>
  C3, as stated: \<^verbatim>\<open>getLockoutPenalty\<close> agrees with the reference definition, in which a base
  rule wins for every entry that is present. The code tests the entry with \<^verbatim>\<open>!penalty\<close>,
  which is also true for an entry of duration 0: with \<^verbatim>\<open>baseRules = {6: 0}\<close>, threshold 5,
  increment 2 and threshold penalty 60000, the code returns 60000 at 6 attempts where the
  reference definition returns the entry, 0.
\<close>

theorem zero_base_rule_counterexample:
  "getLockoutPenalty zero_rule_config 6 = Some 60000
   \<and> computeLockoutPenalty_spec zero_rule_config 6 = Some 0
   \<and> getLockoutPenalty zero_rule_config 6 \<noteq> computeLockoutPenalty_spec zero_rule_config 6"
  by (simp add: getLockoutPenalty_def computeLockoutPenalty_spec_def zero_rule_config_def
        falsy_def js_not_def js_rem_def)

text \<open>
  C3, amended: for an increment other than 0, \<^verbatim>\<open>getLockoutPenalty\<close> returns the base rule
  of the exact count when that entry is not 0; otherwise (no entry, or an entry of 0) it returns
  the threshold penalty when the count has reached the threshold and is a multiple of the
  increment; otherwise it returns the lookup as it is, absent or 0. It is a function of the
  configuration and the count alone.
\<close>

theorem getLockoutPenalty_amended:
  "increment (thresholdRules cfg) \<noteq> 0 \<Longrightarrow>
   getLockoutPenalty cfg attempts = computeLockoutPenalty_amended cfg attempts"
  by (auto simp: getLockoutPenalty_def computeLockoutPenalty_amended_def Let_def falsy_def
        js_not_js_rem split: option.splits)

theorem getLockoutPenalty_amended_witness:
  "increment (thresholdRules zero_rule_config) \<noteq> 0
   \<and> getLockoutPenalty zero_rule_config 6 = computeLockoutPenalty_amended zero_rule_config 6
   \<and> computeLockoutPenalty_amended zero_rule_config 6 = Some 60000"
proof -
  have h: "increment (thresholdRules zero_rule_config) \<noteq> 0"
    by (simp add: zero_rule_config_def)
  have v: "computeLockoutPenalty_amended zero_rule_config 6 = Some 60000"
    by (simp add: computeLockoutPenalty_amended_def zero_rule_config_def)
  show ?thesis
    using h v getLockoutPenalty_amended [OF h, of 6] by simp
qed

text \<open>
  C9: with increment 1 both remainders of the \<^verbatim>\<open>attemptsLeft\<close> computation have a non-zero
  divisor, so neither is NaN, and the result is 0. It holds for every integer count, the
  non-negative ones among them.
\<close>

theorem attemptsLeft_increment_one:
  "js_rem newAttempt 1 = Num 0 \<and> attemptsLeft 1 newAttempt = Num 0"
  by (simp add: attemptsLeft_def js_rem_def)

section \<open>A failed attempt\<close>

lemma warnings_showMessage [simp]: "warnings (showMessage inl m # es) = m # warnings es"
  by (simp add: showMessage_def)

lemma dispatched_showMessage [simp]: "dispatched (showMessage inl m # es) = dispatched es"
  by (simp add: showMessage_def)

lemma dispatched_append [simp]: "dispatched (xs @ ys) = dispatched xs @ dispatched ys"
  by (induction xs rule: dispatched.induct) simp_all

lemma dispatched_gotoPostAuthScreens [simp]: "dispatched (gotoPostAuthScreens st) = []"
  by (simp add: gotoPostAuthScreens_def split: list.splits)

text \<open>
  The four ways through the block, by the value of \<^verbatim>\<open>attemptsLeft\<close>. In the first two the
  penalty is never looked at for the decision: the warning is written, entry is enabled again
  and the counter alone is stored.
\<close>

lemma recordFailedAttempt_tries_remaining:
  assumes "attemptsLeft (increment (thresholdRules cfg)) (loginAttempts (loginAttempt st) + 1) = Num k"
    and "1 < k"
  shows "warnings (recordFailedAttempt cfg inl st now) = [IncorrectPINTries (Num k)]"
    and "SetContinueEnabled True \<in> set (recordFailedAttempt cfg inl st now)"
    and "loginAttempt (store_after st (recordFailedAttempt cfg inl st now))
         = (loginAttempt st)\<lparr>loginAttempts := loginAttempts (loginAttempt st) + 1\<rparr>"
  using assms
  by (simp_all add: recordFailedAttempt_def Let_def js_gt_def js_eq_def store_after_def)

lemma recordFailedAttempt_last_try:
  assumes "attemptsLeft (increment (thresholdRules cfg)) (loginAttempts (loginAttempt st) + 1) = Num 1"
  shows "warnings (recordFailedAttempt cfg inl st now) = [LastTryBeforeTimeout]"
    and "SetContinueEnabled True \<in> set (recordFailedAttempt cfg inl st now)"
    and "loginAttempt (store_after st (recordFailedAttempt cfg inl st now))
         = (loginAttempt st)\<lparr>loginAttempts := loginAttempts (loginAttempt st) + 1\<rparr>"
  using assms
  by (simp_all add: recordFailedAttempt_def Let_def js_gt_def js_eq_def store_after_def)

text \<open>Only at \<^verbatim>\<open>attemptsLeft\<close> 0 does a penalty lock the wallet.\<close>

lemma recordFailedAttempt_lockout:
  assumes "attemptsLeft (increment (thresholdRules cfg)) (loginAttempts (loginAttempt st) + 1) = Num 0"
    and "getLockoutPenalty cfg (loginAttempts (loginAttempt st) + 1) = Some penalty"
  shows "warnings (recordFailedAttempt cfg inl st now) = []"
    and "loginAttempt (store_after st (recordFailedAttempt cfg inl st now))
         = \<lparr>loginAttempts = loginAttempts (loginAttempt st) + 1,
            lockoutDate = Some (now + penalty),
            servedPenalty = Some False\<rparr>"
  using assms
  by (simp_all add: recordFailedAttempt_def Let_def js_gt_def js_eq_def store_after_def
        attemptLockout_def)

text \<open>At \<^verbatim>\<open>attemptsLeft\<close> 0 without a penalty the early return leaves the store alone.\<close>

lemma recordFailedAttempt_degenerate:
  assumes "attemptsLeft (increment (thresholdRules cfg)) (loginAttempts (loginAttempt st) + 1) = Num 0"
    and "getLockoutPenalty cfg (loginAttempts (loginAttempt st) + 1) = None"
  shows "recordFailedAttempt cfg inl st now = (if inl then [] else [SetAlertModalVisible True])"
    and "store_after st (recordFailedAttempt cfg inl st now) = st"
  using assms
  by (simp_all add: recordFailedAttempt_def Let_def js_gt_def js_eq_def store_after_def falsy_def)

subsection \<open>The scenarios of the specification\<close>

lemma scenario_penalties:
  "getLockoutPenalty scenario_config 2 = None"
  "getLockoutPenalty scenario_config 3 = Some 30000"
  by (simp_all add: getLockoutPenalty_def scenario_config_def falsy_def js_not_def js_rem_def)

lemma scenario_increment: "increment (thresholdRules scenario_config) = 2"
  by (simp add: scenario_config_def)

lemma scenario_attemptsLeft:
  "attemptsLeft 2 2 = Num 0" "attemptsLeft 2 3 = Num 1"
  by (simp_all add: attemptsLeft_def js_rem_def)

lemma store_with_attempts_fields:
  "loginAttempts (loginAttempt (store_with_attempts n)) = n"
  "servedPenalty (loginAttempt (store_with_attempts n)) = None"
  "lockoutDate (loginAttempt (store_with_attempts n)) = None"
  by (simp_all add: store_with_attempts_def)

text \<open>
  C1 says that a failed attempt whose new count has a penalty locks the wallet, and that in
  scenario 1 (two failures so far, a base rule at 3) the third failure sets
  \<^verbatim>\<open>lockoutDate = now + 30000\<close>. The code evaluated there: the penalty for the new count is
  30000 and the screen announces that the next failure locks out, yet \<^verbatim>\<open>attemptsLeft\<close> is 1,
  so the last-try branch runs, writes its warning, enables entry again and stores the counter 3
  with no lockout date.
\<close>

theorem scenario1_failure_does_not_lock_out:
  "getLockoutPenalty scenario_config (loginAttempts (loginAttempt (store_with_attempts 2)) + 1)
     = Some 30000
   \<and> displayLockoutWarning scenario_config (store_with_attempts 2)
   \<and> unlockWalletWithPIN scenario_config inlineEnabled (store_with_attempts 2) now (Returns False)
     = [SetContinueEnabled False,
        showMessage inlineEnabled LastTryBeforeTimeout,
        SetContinueEnabled True,
        Dispatch (ATTEMPT_UPDATED
          \<lparr>pl_loginAttempts = 3, pl_lockoutDate = None, pl_servedPenalty = None\<rparr>)]
   \<and> loginAttempt (store_after (store_with_attempts 2)
        (unlockWalletWithPIN scenario_config inlineEnabled (store_with_attempts 2) now
           (Returns False)))
     = \<lparr>loginAttempts = 3, lockoutDate = None, servedPenalty = None\<rparr>"
proof -
  have e: "unlockWalletWithPIN scenario_config inlineEnabled (store_with_attempts 2) now
             (Returns False)
     = [SetContinueEnabled False,
        showMessage inlineEnabled LastTryBeforeTimeout,
        SetContinueEnabled True,
        Dispatch (ATTEMPT_UPDATED
          \<lparr>pl_loginAttempts = 3, pl_lockoutDate = None, pl_servedPenalty = None\<rparr>)]"
    by (simp add: unlockWalletWithPIN_def recordFailedAttempt_def store_with_attempts_fields
          scenario_increment scenario_penalties scenario_attemptsLeft falsy_def js_gt_def
          js_eq_def)
  have s: "loginAttempt (store_after (store_with_attempts 2)
        (unlockWalletWithPIN scenario_config inlineEnabled (store_with_attempts 2) now
           (Returns False)))
     = \<lparr>loginAttempts = 3, lockoutDate = None, servedPenalty = None\<rparr>"
    unfolding e by (simp add: store_after_def store_with_attempts_def)
  show ?thesis
    using e s
    by (simp add: displayLockoutWarning_def store_with_attempts_fields scenario_penalties
          falsy_def)
qed

text \<open>
  C2 says that every failed attempt stores the counter plus one, the branch with
  \<^verbatim>\<open>attemptsLeft\<close> 0 and no penalty included. The code evaluated at the second failure of
  scenario 2 (one failure so far): no penalty is due at 2, nothing is dispatched, and the stored
  counter is still 1.
\<close>

theorem scenario2_second_failure_not_counted:
  "getLockoutPenalty scenario_config (loginAttempts (loginAttempt (store_with_attempts 1)) + 1)
     = None
   \<and> dispatched (unlockWalletWithPIN scenario_config inlineEnabled (store_with_attempts 1) now
        (Returns False)) = []
   \<and> loginAttempts (loginAttempt (store_after (store_with_attempts 1)
        (unlockWalletWithPIN scenario_config inlineEnabled (store_with_attempts 1) now
           (Returns False)))) = 1"
  by (simp add: unlockWalletWithPIN_def recordFailedAttempt_def store_with_attempts_fields
        scenario_increment scenario_penalties scenario_attemptsLeft falsy_def js_gt_def js_eq_def
        store_after_def)

text \<open>
  C4 says that a failed attempt without lockout warns of the tries that remain when
  \<^verbatim>\<open>attemptsLeft\<close> is above 1, warns of the last try when it is 1, and is recorded silently
  when it is 0. The first two hold (\<open>recordFailedAttempt_tries_remaining\<close>,
  \<open>recordFailedAttempt_last_try\<close>). The code evaluated at \<^verbatim>\<open>attemptsLeft\<close> 0 without a
  penalty, again the second failure of scenario 2: all the callback does is disable entry and,
  when messages are not inline, raise the modal; the attempt is not recorded and entry is not
  enabled again.
\<close>

theorem degenerate_branch_effects:
  "attemptsLeft (increment (thresholdRules scenario_config))
     (loginAttempts (loginAttempt (store_with_attempts 1)) + 1) = Num 0
   \<and> unlockWalletWithPIN scenario_config False (store_with_attempts 1) now (Returns False)
     = [SetContinueEnabled False, SetAlertModalVisible True]
   \<and> unlockWalletWithPIN scenario_config True (store_with_attempts 1) now (Returns False)
     = [SetContinueEnabled False]"
  by (simp add: unlockWalletWithPIN_def recordFailedAttempt_def store_with_attempts_fields
        scenario_increment scenario_penalties scenario_attemptsLeft falsy_def js_gt_def js_eq_def)

section \<open>A successful attempt\<close>

text \<open>
  C5: the tail of \<^verbatim>\<open>unlockWalletWithPIN\<close> that runs after a correct PIN stores the counter 0
  and clears the lockout notification. The payload it dispatches writes \<^verbatim>\<open>loginAttempts\<close>
  only, so with a store that applies payloads as patches the lockout date and the served-penalty
  mark are what they were. It holds from every store.
\<close>

theorem recordSuccessfulAttempt_resets_counter:
  "dispatched (recordSuccessfulAttempt st)
     = [ATTEMPT_UPDATED \<lparr>pl_loginAttempts = 0, pl_lockoutDate = None, pl_servedPenalty = None\<rparr>,
        LOCKOUT_UPDATED False]
   \<and> loginAttempts (loginAttempt (store_after st (recordSuccessfulAttempt st))) = 0
   \<and> displayNotification (store_after st (recordSuccessfulAttempt st)) = False
   \<and> lockoutDate (loginAttempt (store_after st (recordSuccessfulAttempt st)))
       = lockoutDate (loginAttempt st)
   \<and> servedPenalty (loginAttempt (store_after st (recordSuccessfulAttempt st)))
       = servedPenalty (loginAttempt st)"
  by (simp add: recordSuccessfulAttempt_def store_after_def)

text \<open>
  In the whole callback the tail comes after \<^verbatim>\<open>unMarkServedPenalty\<close>, which runs when the
  served-penalty mark is set and clears the lockout date with it.
\<close>

lemma unlockWalletWithPIN_success:
  "loginAttempts (loginAttempt (store_after st
      (unlockWalletWithPIN cfg inl st now (Returns True)))) = 0"
  "displayNotification (store_after st
      (unlockWalletWithPIN cfg inl st now (Returns True))) = False"
  "lockoutDate (loginAttempt (store_after st
      (unlockWalletWithPIN cfg inl st now (Returns True))))
     = (if servedPenalty (loginAttempt st) = Some True then None
        else lockoutDate (loginAttempt st))"
  by (simp_all add: unlockWalletWithPIN_def recordSuccessfulAttempt_def unMarkServedPenalty_def
        store_after_def)

text \<open>
  C10: for wallet unlock, when \<^verbatim>\<open>getWalletSecret\<close> resolves to a secret,
  \<^verbatim>\<open>loadWalletCredentials\<close> dispatches the clearing of the lockout notification and the
  counter 0 before it calls \<^verbatim>\<open>setAuthenticated(true)\<close>; for the PIN check and the change of
  biometrics it performs nothing.
\<close>

theorem loadWalletCredentials_success_invariant:
  "loadWalletCredentials WalletUnlock st (Returns (Some walletSecret))
     = ([Dispatch (LOCKOUT_UPDATED False),
         Dispatch (ATTEMPT_UPDATED
           \<lparr>pl_loginAttempts = 0, pl_lockoutDate = None, pl_servedPenalty = None\<rparr>),
         SetAuthenticated True] @ gotoPostAuthScreens st,
        Resolved)
   \<and> loginAttempts (loginAttempt (store_after st
        (fst (loadWalletCredentials WalletUnlock st (Returns (Some walletSecret)))))) = 0
   \<and> displayNotification (store_after st
        (fst (loadWalletCredentials WalletUnlock st (Returns (Some walletSecret))))) = False
   \<and> loadWalletCredentials PINCheck st getWalletSecret = ([], Resolved)
   \<and> loadWalletCredentials ChangeBiometrics st getWalletSecret = ([], Resolved)
   \<and> store_after st (fst (loadWalletCredentials PINCheck st getWalletSecret)) = st
   \<and> store_after st (fst (loadWalletCredentials ChangeBiometrics st getWalletSecret)) = st"
  by (simp add: loadWalletCredentials_def store_after_def)

section \<open>A verification that throws\<close>

text \<open>
  C8: when \<^verbatim>\<open>checkWalletPIN\<close> rejects, \<^verbatim>\<open>unlockWalletWithPIN\<close> emits the one error 1041
  and dispatches nothing; when \<^verbatim>\<open>getWalletSecret\<close> rejects or finds no secret, or
  \<^verbatim>\<open>hashPIN\<close> rejects, \<^verbatim>\<open>verifyPIN\<close> emits the one error 1042; \<^verbatim>\<open>verifyPIN\<close> never
  dispatches. Seen from \<^verbatim>\<open>onPINInputCompleted\<close>, either usage ends with its error event and
  no rejection.
\<close>

theorem verification_throw_is_caught:
  "unlockWalletWithPIN cfg inl st now Throws = [SetContinueEnabled False, EmitError 1041]
   \<and> store_after st (unlockWalletWithPIN cfg inl st now Throws) = st
   \<and> verifyPIN Throws hashPIN PIN = [EmitError 1042]
   \<and> verifyPIN (Returns None) hashPIN PIN = [EmitError 1042]
   \<and> (hashPIN PIN (salt walletSecret) = Throws
        \<longrightarrow> verifyPIN (Returns (Some walletSecret)) hashPIN PIN = [EmitError 1042])
   \<and> store_after st (verifyPIN getWalletSecret hashPIN PIN) = st
   \<and> onPINInputCompleted cfg False minPINLength WalletUnlock st now (\<lambda>p. Throws)
        getWalletSecret hashPIN PIN
       = [SetContinueEnabled False, SetContinueEnabled False, EmitError 1041]
   \<and> onPINInputCompleted cfg False minPINLength PINCheck st now checkWalletPIN
        Throws hashPIN PIN
       = [SetContinueEnabled False, EmitError 1042]
   \<and> onPINInputCompleted cfg False minPINLength ChangeBiometrics st now checkWalletPIN
        Throws hashPIN PIN
       = [SetContinueEnabled False, EmitError 1042]"
proof -
  have v: "store_after st (verifyPIN getWalletSecret hashPIN PIN) = st"
    by (simp add: verifyPIN_def store_after_def split: outcome.splits option.splits)
  show ?thesis
    using v
    by (simp add: unlockWalletWithPIN_def verifyPIN_def store_after_def onPINInputCompleted_def)
qed

theorem verification_throw_is_caught_witness:
  "verifyPIN (Returns (Some \<lparr>key = ''k'', salt = ''s''\<rparr>)) (\<lambda>p s. Throws) ''123456''
     = [EmitError 1042]
   \<and> unlockWalletWithPIN scenario_config True (store_with_attempts 2) 0 Throws
     = [SetContinueEnabled False, EmitError 1041]"
  using verification_throw_is_caught
    [of scenario_config True "store_with_attempts 2" 0 "\<lambda>p s. Throws" "''123456''"
        "\<lparr>key = ''k'', salt = ''s''\<rparr>"]
  by simp

section \<open>The authentication gate\<close>

lemma RootStack_sound:
  assumes "memo_sound s"
  shows "memo_sound (fst (RootStack s da))"
    and "snd (RootStack s da) = decideStack (onboardingComplete s, da)"
  using assms
  by (auto simp: memo_sound_def RootStack_def useMemo_def Let_def decideStack_def
        shouldRenderMainStack_def split: option.splits if_splits)

lemma render_fields:
  "onboardingComplete (component (render s da)) = onboardingComplete s"
  "didAuthenticate (render s da) = da"
  by (auto simp: render_def RootStack_def Let_def)

lemma render_consistent: "memo_sound s \<Longrightarrow> gate_consistent (render s da)"
  using RootStack_sound [of s da]
  by (simp add: gate_consistent_def render_fields) (simp add: render_def Let_def)

lemma mount_consistent: "gate_consistent (mount da)"
  unfolding mount_def by (rule render_consistent) (simp add: memo_sound_def)

lemma gate_step_consistent: "gate_consistent g \<Longrightarrow> gate_consistent (gate_step g e)"
proof (cases e)
  case DID_COMPLETE_ONBOARDING
  assume "gate_consistent g"
  then have "memo_sound ((component g)\<lparr>onboardingComplete := True\<rparr>)"
    by (simp add: gate_consistent_def memo_sound_def)
  then show ?thesis
    using DID_COMPLETE_ONBOARDING by (simp add: render_consistent)
next
  case (AuthenticationChanged b)
  assume "gate_consistent g"
  then have "memo_sound (component g)"
    by (simp add: gate_consistent_def)
  then show ?thesis
    using AuthenticationChanged by (simp add: render_consistent)
qed

lemma run_gate_consistent: "gate_consistent g \<Longrightarrow> gate_consistent (run_gate g es)"
  unfolding run_gate_def
  by (induction es arbitrary: g) (simp_all add: gate_step_consistent)

lemma gate_step_signals:
  "(onboardingComplete (component (gate_step g e)), didAuthenticate (gate_step g e))
   = apply_event (onboardingComplete (component g), didAuthenticate g) e"
  by (cases e) (simp_all add: render_fields)

lemma run_gate_signals:
  "(onboardingComplete (component (run_gate g es)), didAuthenticate (run_gate g es))
   = foldl apply_event (onboardingComplete (component g), didAuthenticate g) es"
  unfolding run_gate_def
  by (induction es arbitrary: g) (simp_all add: gate_step_signals)

lemma mount_signals:
  "(onboardingComplete (component (mount da)), didAuthenticate (mount da)) = (False, da)"
  by (simp add: mount_def render_fields)

text \<open>
  C6: the decision is the conjunction of the two signals, and after any sequence of events since
  the component was mounted the stack on screen is the one decided by the latest value of both:
  the memoised value is never stale. In scenario 3 the gate mounted with
  \<^verbatim>\<open>didAuthenticate = true\<close> shows the onboarding stack, and the main stack once the
  completion event has arrived.
\<close>

theorem RootStack_renders_latest_conjunction:
  "shouldRenderMainStack oc da = (oc \<and> da)
   \<and> rendered (run_gate (mount d0) es) = decideStack (latest_signals d0 es)
   \<and> (rendered (run_gate (mount d0) es) = MainStack)
       = (fst (latest_signals d0 es) \<and> snd (latest_signals d0 es))
   \<and> rendered (mount True) = OnboardingStack
   \<and> rendered (gate_step (mount True) DID_COMPLETE_ONBOARDING) = MainStack"
proof -
  have c: "gate_consistent (run_gate (mount d0) es)"
    by (rule run_gate_consistent [OF mount_consistent])
  have s: "(onboardingComplete (component (run_gate (mount d0) es)),
            didAuthenticate (run_gate (mount d0) es)) = latest_signals d0 es"
    by (simp add: run_gate_signals mount_signals latest_signals_def)
  have r: "rendered (run_gate (mount d0) es) = decideStack (latest_signals d0 es)"
    using c s by (simp add: gate_consistent_def)
  have m: "(rendered (run_gate (mount d0) es) = MainStack)
       = (fst (latest_signals d0 es) \<and> snd (latest_signals d0 es))"
    by (simp add: r decideStack_def)
  have a: "rendered (mount True) = OnboardingStack"
    by (simp add: mount_def render_def RootStack_def useMemo_def shouldRenderMainStack_def)
  have b: "rendered (gate_step (mount True) DID_COMPLETE_ONBOARDING) = MainStack"
    by (simp add: mount_def render_def RootStack_def useMemo_def shouldRenderMainStack_def)
  show ?thesis
    using r m a b by (simp add: shouldRenderMainStack_def)
qed

lemma gate_step_keeps:
  "onboardingComplete (component g) \<Longrightarrow> onboardingComplete (component (gate_step g e))"
  by (cases e) (simp_all add: render_fields)

lemma run_gate_keeps:
  "onboardingComplete (component g) \<Longrightarrow> onboardingComplete (component (run_gate g es))"
  unfolding run_gate_def
  by (induction es arbitrary: g) (simp_all add: gate_step_keeps)

lemma run_gate_append: "run_gate g (es @ es') = run_gate (run_gate g es) es'"
  by (simp add: run_gate_def)

text \<open>
  C7: \<^verbatim>\<open>onboardingComplete\<close> is false when the component is mounted; a step keeps it true;
  a step that makes it true is the completion event; and along every run from the mount, once it
  is true it is true after any further events.
\<close>

theorem onboardingComplete_never_reverts:
  "\<not> onboardingComplete (component (mount d0))
   \<and> (onboardingComplete (component g) \<longrightarrow> onboardingComplete (component (gate_step g e)))
   \<and> (\<not> onboardingComplete (component g) \<and> onboardingComplete (component (gate_step g e))
        \<longrightarrow> e = DID_COMPLETE_ONBOARDING)
   \<and> (onboardingComplete (component (run_gate (mount d0) es))
        \<longrightarrow> onboardingComplete (component (run_gate (mount d0) (es @ es'))))"
proof -
  have i: "\<not> onboardingComplete (component (mount d0))"
    by (simp add: mount_def render_fields)
  have o: "\<not> onboardingComplete (component g) \<and> onboardingComplete (component (gate_step g e))
        \<longrightarrow> e = DID_COMPLETE_ONBOARDING"
    by (cases e) (simp_all add: render_fields)
  show ?thesis
    using i o by (simp add: gate_step_keeps run_gate_append run_gate_keeps)
qed

theorem onboardingComplete_never_reverts_witness:
  "\<not> onboardingComplete (component (mount False))
   \<and> onboardingComplete (component (gate_step (mount False) DID_COMPLETE_ONBOARDING))
   \<and> onboardingComplete (component (run_gate (mount False) [DID_COMPLETE_ONBOARDING]))
   \<and> onboardingComplete (component (run_gate (mount False)
        ([DID_COMPLETE_ONBOARDING] @ [AuthenticationChanged True, AuthenticationChanged False])))
   \<and> onboardingComplete (component (gate_step
        (gate_step (mount False) DID_COMPLETE_ONBOARDING) (AuthenticationChanged False)))"
proof -
  have h: "onboardingComplete (component (run_gate (mount False) [DID_COMPLETE_ONBOARDING]))"
    by (simp add: run_gate_def render_fields)
  have k: "onboardingComplete (component (gate_step (mount False) DID_COMPLETE_ONBOARDING))"
    by (simp add: render_fields)
  show ?thesis
    using h k
      onboardingComplete_never_reverts
        [of False "gate_step (mount False) DID_COMPLETE_ONBOARDING"
          "AuthenticationChanged False" "[DID_COMPLETE_ONBOARDING]"
          "[AuthenticationChanged True, AuthenticationChanged False]"]
    by simp
qed

end
